theory Spec2Isabelle
  imports Main
begin

section \<open>Entities (core/entities.py)\<close>

text \<open>
  The dataclass \<open>Entity\<close> and its subclass \<open>User\<close>. The field \<open>id\<close> of the source is
  called \<open>id_field\<close> here, because \<open>id\<close> is the identity function of HOL.
  \<open>Optional[str]\<close> is \<open>string option\<close>.
\<close>

record Entity =
  id_field :: string
  created_at :: "string option"
  updated_at :: "string option"
  is_active :: bool
  deleted :: bool

record User = Entity +
  name :: string
  email :: string

text \<open>
  The constructor call \<open>User(name=n, email=m)\<close> of the tests. Every other field takes
  its default; the default of \<open>id\<close> is \<open>str(uuid.uuid4())\<close>, a random token drawn
  outside the program, so the token is an argument here.
\<close>

definition User_init :: "string \<Rightarrow> string \<Rightarrow> string \<Rightarrow> User" where
  "User_init uuid4 n m =
     \<lparr>id_field = uuid4, created_at = None, updated_at = None,
      is_active = True, deleted = False, name = n, email = m\<rparr>"

section \<open>Objects, exceptions and dictionaries\<close>

text \<open>
  Python passes and stores references to mutable objects: an entity is a reference,
  and the heap gives the object behind it. A reference always leads to an object.
\<close>

type_synonym ref = nat

type_synonym heap = "ref \<Rightarrow> User"

datatype error = ValueError string | KeyError string

text \<open>
  A Python \<open>dict\<close> from \<open>str\<close> to entities keeps its keys in insertion order: it is the
  list of its items in that order, each key once.
\<close>

type_synonym dict = "(string \<times> ref) list"

text \<open>\<open>k in d\<close>\<close>

definition dict_contains :: "dict \<Rightarrow> string \<Rightarrow> bool" where
  "dict_contains d k = (k \<in> set (map fst d))"

text \<open>\<open>d.get(k)\<close>: the value, or \<open>None\<close>; it never raises.\<close>

definition dict_get :: "dict \<Rightarrow> string \<Rightarrow> ref option" where
  "dict_get d k = map_of d k"

text \<open>
  \<open>d[k] = v\<close>: a key already there keeps its place and takes the new value; a new key
  goes to the end.
\<close>

definition dict_setitem :: "dict \<Rightarrow> string \<Rightarrow> ref \<Rightarrow> dict" where
  "dict_setitem d k v =
     (if dict_contains d k
      then map (\<lambda>(k', v'). if k' = k then (k', v) else (k', v')) d
      else d @ [(k, v)])"

text \<open>\<open>del d[k]\<close>: raises \<open>KeyError\<close> when the key is missing.\<close>

definition dict_delitem :: "dict \<Rightarrow> string \<Rightarrow> error + dict" where
  "dict_delitem d k =
     (if dict_contains d k
      then Inr (filter (\<lambda>(k', v'). k' \<noteq> k) d)
      else Inl (KeyError k))"

text \<open>\<open>list(d.values())\<close>\<close>

definition dict_values :: "dict \<Rightarrow> ref list" where
  "dict_values d = map snd d"

section \<open>The in-memory repository (core/interfaces.py)\<close>

text \<open>
  The state a call runs in: the heap of entity objects and the attribute
  \<open>self.storage\<close> of the repository. A call gives back what it returned or raised,
  and the state it left.
\<close>

record pystate =
  heap :: heap
  storage :: dict

type_synonym ('s, 'a) outcome = "(error + 'a) \<times> 's"

text \<open>\<open>InMemoryRepository.__init__\<close>: \<open>self.storage = {}\<close>\<close>

definition InMemoryRepository_init :: "heap \<Rightarrow> pystate" where
  "InMemoryRepository_init h = \<lparr>heap = h, storage = []\<rparr>"

definition InMemoryRepository_get_by_id ::
    "pystate \<Rightarrow> string \<Rightarrow> (pystate, ref option) outcome" where
  "InMemoryRepository_get_by_id st entity_id =
     (Inr (dict_get (storage st) entity_id), st)"

definition InMemoryRepository_get_all :: "pystate \<Rightarrow> (pystate, ref list) outcome" where
  "InMemoryRepository_get_all st = (Inr (dict_values (storage st)), st)"

definition InMemoryRepository_create :: "pystate \<Rightarrow> ref \<Rightarrow> (pystate, ref) outcome" where
  "InMemoryRepository_create st entity =
     (Inr entity,
      st\<lparr>storage := dict_setitem (storage st) (id_field (heap st entity)) entity\<rparr>)"

definition InMemoryRepository_update ::
    "pystate \<Rightarrow> string \<Rightarrow> ref \<Rightarrow> (pystate, ref) outcome" where
  "InMemoryRepository_update st entity_id entity =
     (if dict_contains (storage st) entity_id
      then (Inr entity, st\<lparr>storage := dict_setitem (storage st) entity_id entity\<rparr>)
      else (Inl (ValueError ''Entity not found''), st))"

definition InMemoryRepository_delete ::
    "pystate \<Rightarrow> string \<Rightarrow> (pystate, bool) outcome" where
  "InMemoryRepository_delete st entity_id =
     (if dict_contains (storage st) entity_id
      then (case dict_delitem (storage st) entity_id of
              Inl e \<Rightarrow> (Inl e, st)
            | Inr d \<Rightarrow> (Inr True, st\<lparr>storage := d\<rparr>))
      else (Inr False, st))"

section \<open>The repository interface and the service (core/use-cases)\<close>

text \<open>
  The abstract class \<open>Repository\<close> is its five methods, over whatever state an
  implementation keeps. \<open>CRUDService\<close> holds one repository and calls its methods.
\<close>

record 's Repository =
  get_by_id :: "'s \<Rightarrow> string \<Rightarrow> ('s, ref option) outcome"
  get_all :: "'s \<Rightarrow> ('s, ref list) outcome"
  create :: "'s \<Rightarrow> ref \<Rightarrow> ('s, ref) outcome"
  update :: "'s \<Rightarrow> string \<Rightarrow> ref \<Rightarrow> ('s, ref) outcome"
  delete :: "'s \<Rightarrow> string \<Rightarrow> ('s, bool) outcome"

definition InMemoryRepository :: "pystate Repository" where
  "InMemoryRepository =
     \<lparr>get_by_id = InMemoryRepository_get_by_id,
      get_all = InMemoryRepository_get_all,
      create = InMemoryRepository_create,
      update = InMemoryRepository_update,
      delete = InMemoryRepository_delete\<rparr>"

record 's CRUDService =
  repository :: "'s Repository"

definition CRUDService_init :: "'s Repository \<Rightarrow> 's CRUDService" where
  "CRUDService_init repo = \<lparr>repository = repo\<rparr>"

definition CRUDService_get ::
    "'s CRUDService \<Rightarrow> 's \<Rightarrow> string \<Rightarrow> ('s, ref option) outcome" where
  "CRUDService_get self st entity_id = get_by_id (repository self) st entity_id"

definition CRUDService_list_all :: "'s CRUDService \<Rightarrow> 's \<Rightarrow> ('s, ref list) outcome" where
  "CRUDService_list_all self st = get_all (repository self) st"

definition CRUDService_create ::
    "'s CRUDService \<Rightarrow> 's \<Rightarrow> ref \<Rightarrow> ('s, ref) outcome" where
  "CRUDService_create self st entity = create (repository self) st entity"

definition CRUDService_update ::
    "'s CRUDService \<Rightarrow> 's \<Rightarrow> string \<Rightarrow> ref \<Rightarrow> ('s, ref) outcome" where
  "CRUDService_update self st entity_id entity =
     update (repository self) st entity_id entity"

definition CRUDService_delete ::
    "'s CRUDService \<Rightarrow> 's \<Rightarrow> string \<Rightarrow> ('s, bool) outcome" where
  "CRUDService_delete self st entity_id = delete (repository self) st entity_id"


section \<open>Calls in sequence\<close>

text \<open>
  Statements one after another: an exception raised by the first ends the sequence with
  the state as it was left; otherwise the next statement runs on what was returned.
\<close>

definition then_call ::
    "('s, 'a) outcome \<Rightarrow> ('a \<Rightarrow> 's \<Rightarrow> ('s, 'b) outcome) \<Rightarrow> ('s, 'b) outcome" where
  "then_call m f = (case m of (Inl e, st) \<Rightarrow> (Inl e, st) | (Inr a, st) \<Rightarrow> f a st)"

text \<open>
  The scenario \<open>create(e1); create(e2); delete(e1.id); list_all()\<close> on a service over a
  fresh in-memory repository.
\<close>

definition create_create_delete_list ::
    "heap \<Rightarrow> ref \<Rightarrow> ref \<Rightarrow> (pystate, ref list) outcome" where
  "create_create_delete_list h e1 e2 =
     (let svc = CRUDService_init InMemoryRepository in
      then_call (CRUDService_create svc (InMemoryRepository_init h) e1) (\<lambda>r1 st1.
      then_call (CRUDService_create svc st1 e2) (\<lambda>r2 st2.
      then_call (CRUDService_delete svc st2 (id_field (heap st2 e1))) (\<lambda>b st3.
      CRUDService_list_all svc st3))))"

section \<open>Example objects\<close>

text \<open>
  Three objects: two users with their own ids, and a third that was built with the id of
  the first.
\<close>

definition john :: User where
  "john = User_init ''u-1'' ''John Doe'' ''john.doe@example.com''"

definition jane :: User where
  "jane = User_init ''u-2'' ''Jane Doe'' ''jane.doe@example.com''"

definition john_again :: User where
  "john_again = User_init ''u-1'' ''John Doe Updated'' ''john.doe@example.com''"

definition example_heap :: heap where
  "example_heap r = (if r = 10 then john else if r = 20 then jane else john_again)"

definition fresh_state :: pystate where
  "fresh_state = InMemoryRepository_init example_heap"

definition john_stored :: pystate where
  "john_stored = \<lparr>heap = example_heap, storage = [(''u-1'', 10)]\<rparr>"

definition both_stored :: pystate where
  "both_stored = \<lparr>heap = example_heap, storage = [(''u-1'', 10), (''u-2'', 20)]\<rparr>"

definition jane_at_john :: pystate where
  "jane_at_john = \<lparr>heap = example_heap, storage = [(''u-1'', 20)]\<rparr>"

text \<open>A heap whose objects differ from the example's in every field but the id.\<close>

definition other_heap :: heap where
  "other_heap r =
     (example_heap r)\<lparr>created_at := Some ''2024-01-01'', updated_at := Some ''2024-01-02'',
        is_active := False, deleted := True, name := ''x'', email := ''y''\<rparr>"

section \<open>Dictionaries: lookups, keys and values after each operation\<close>


lemma dict_contains_iff_get: "dict_contains d k \<longleftrightarrow> dict_get d k \<noteq> None"
  by (simp add: dict_contains_def dict_get_def map_of_eq_None_iff)

lemma map_of_replace_same:
  "k \<in> set (map fst d) \<Longrightarrow>
   map_of (map (\<lambda>(k', v'). if k' = k then (k', v) else (k', v')) d) k = Some v"
  by (induction d) auto

lemma map_of_replace_other:
  "k' \<noteq> k \<Longrightarrow>
   map_of (map (\<lambda>(k'', v'). if k'' = k then (k'', v) else (k'', v')) d) k' = map_of d k'"
  by (induction d) auto

lemma keys_replace:
  "map fst (map (\<lambda>(k', v'). if k' = k then (k', v) else (k', v')) d) = map fst d"
  by (induction d) auto

lemma map_of_snoc_fresh: "k \<notin> set (map fst d) \<Longrightarrow> map_of (d @ [(k, v)]) k = Some v"
  by (induction d) auto

lemma map_of_snoc_other: "k' \<noteq> k \<Longrightarrow> map_of (d @ [(k, v)]) k' = map_of d k'"
  by (induction d) auto

lemma dict_get_setitem_same: "dict_get (dict_setitem d k v) k = Some v"
proof (cases "dict_contains d k")
  case True
  then show ?thesis
    unfolding dict_get_def dict_setitem_def dict_contains_def
    by (simp add: map_of_replace_same)
next
  case False
  then show ?thesis
    unfolding dict_get_def dict_setitem_def dict_contains_def
    by (simp add: map_of_snoc_fresh del: map_of_append)
qed

lemma dict_get_setitem_other: "k' \<noteq> k \<Longrightarrow> dict_get (dict_setitem d k v) k' = dict_get d k'"
  unfolding dict_get_def dict_setitem_def
  by (cases "dict_contains d k") (simp_all add: map_of_replace_other map_of_snoc_other del: map_of_append)

lemma keys_setitem:
  "map fst (dict_setitem d k v) = (if dict_contains d k then map fst d else map fst d @ [k])"
  unfolding dict_setitem_def
  by (cases "dict_contains d k") (simp_all only: if_True if_False keys_replace map_append list.map fst_conv)

lemma values_setitem_subset:
  "set (dict_values (dict_setitem d k v)) \<subseteq> insert v (set (dict_values d))"
  unfolding dict_setitem_def dict_values_def
  by (induction d) (auto split: if_splits)

lemma keys_filter: "map fst (filter (\<lambda>(k', v'). k' \<noteq> k) d) = filter (\<lambda>k'. k' \<noteq> k) (map fst d)"
  by (induction d) auto

lemma map_of_filter_same: "map_of (filter (\<lambda>(k', v'). k' \<noteq> k) d) k = None"
  by (induction d) auto

lemma map_of_filter_other:
  "k' \<noteq> k \<Longrightarrow> map_of (filter (\<lambda>(k'', v'). k'' \<noteq> k) d) k' = map_of d k'"
  by (induction d) auto

lemma dict_delitem_present:
  "dict_contains d k \<Longrightarrow> dict_delitem d k = Inr (filter (\<lambda>(k', v'). k' \<noteq> k) d)"
  by (simp add: dict_delitem_def)

lemma distinct_keys_setitem:
  "distinct (map fst d) \<Longrightarrow> distinct (map fst (dict_setitem d k v))"
  by (simp add: keys_setitem dict_contains_def)

lemma distinct_keys_filter:
  "distinct (map fst d) \<Longrightarrow> distinct (map fst (filter (\<lambda>(k', v'). k' \<noteq> k) d))"
  by (simp add: keys_filter)

lemma values_by_key:
  "distinct (map fst d) \<Longrightarrow> map Some (dict_values d) = map (dict_get d) (map fst d)"
proof (induction d)
  case Nil
  then show ?case by (simp add: dict_values_def)
next
  case (Cons p d)
  obtain k v where p: "p = (k, v)" by (cases p)
  from Cons.prems p have fresh: "k \<notin> fst ` set d" and dist: "distinct (map fst d)"
    by auto
  have "map (dict_get (p # d)) (map fst d) = map (dict_get d) (map fst d)"
    using fresh by (auto simp: dict_get_def p)
  with Cons.IH [OF dist] show ?case
    by (simp add: dict_values_def dict_get_def p)
qed

section \<open>The example objects, evaluated\<close>

lemma example_ids:
  "id_field (example_heap 10) = ''u-1''"
  "id_field (example_heap 20) = ''u-2''"
  "id_field (example_heap 30) = ''u-1''"
  by (simp_all add: example_heap_def john_def jane_def john_again_def User_init_def)

lemma example_states:
  "heap fresh_state = example_heap" "storage fresh_state = []"
  "heap john_stored = example_heap" "storage john_stored = [(''u-1'', 10)]"
  "heap both_stored = example_heap" "storage both_stored = [(''u-1'', 10), (''u-2'', 20)]"
  "heap jane_at_john = example_heap" "storage jane_at_john = [(''u-1'', 20)]"
  by (simp_all add: fresh_state_def InMemoryRepository_init_def john_stored_def
      both_stored_def jane_at_john_def)


section \<open>Deleting from the repository\<close>


lemma delete_present:
  "dict_contains (storage st) k \<Longrightarrow>
   InMemoryRepository_delete st k =
     (Inr True, st\<lparr>storage := filter (\<lambda>(k', v'). k' \<noteq> k) (storage st)\<rparr>)"
  by (simp add: InMemoryRepository_delete_def dict_delitem_present)

lemma delete_absent:
  "\<not> dict_contains (storage st) k \<Longrightarrow> InMemoryRepository_delete st k = (Inr False, st)"
  by (simp add: InMemoryRepository_delete_def)

lemma dict_get_filter_same: "dict_get (filter (\<lambda>(k', v'). k' \<noteq> k) d) k = None"
  by (simp add: dict_get_def map_of_filter_same)

lemma dict_get_filter_other:
  "k' \<noteq> k \<Longrightarrow> dict_get (filter (\<lambda>(k'', v'). k'' \<noteq> k) d) k' = dict_get d k'"
  by (simp add: dict_get_def map_of_filter_other)

section \<open>The service over the in-memory repository, keys and frames\<close>

lemma service_in_memory:
  "CRUDService_get (CRUDService_init InMemoryRepository) = InMemoryRepository_get_by_id"
  "CRUDService_list_all (CRUDService_init InMemoryRepository) = InMemoryRepository_get_all"
  "CRUDService_create (CRUDService_init InMemoryRepository) = InMemoryRepository_create"
  "CRUDService_update (CRUDService_init InMemoryRepository) = InMemoryRepository_update"
  "CRUDService_delete (CRUDService_init InMemoryRepository) = InMemoryRepository_delete"
  by (simp_all add: fun_eq_iff CRUDService_get_def CRUDService_list_all_def
      CRUDService_create_def CRUDService_update_def CRUDService_delete_def
      CRUDService_init_def InMemoryRepository_def)

lemma keys_after_create:
  "map fst (storage (snd (InMemoryRepository_create st e))) =
     (if dict_contains (storage st) (id_field (heap st e)) then map fst (storage st)
      else map fst (storage st) @ [id_field (heap st e)])"
  by (simp add: InMemoryRepository_create_def keys_setitem)

lemma keys_after_update:
  "map fst (storage (snd (InMemoryRepository_update st k e))) = map fst (storage st)"
  by (simp add: InMemoryRepository_update_def keys_setitem)

lemma filter_absent: "k \<notin> set ks \<Longrightarrow> filter (\<lambda>k'. k' \<noteq> k) ks = ks"
  by (induction ks) auto

lemma keys_after_delete:
  "map fst (storage (snd (InMemoryRepository_delete st k))) =
     filter (\<lambda>k'. k' \<noteq> k) (map fst (storage st))"
proof (cases "dict_contains (storage st) k")
  case True
  then show ?thesis by (simp add: delete_present keys_filter)
next
  case False
  then have "k \<notin> set (map fst (storage st))" by (simp add: dict_contains_def)
  from filter_absent [OF this] False show ?thesis by (simp add: delete_absent)
qed

lemma listed_iff_stored:
  "e \<in> set (dict_values d) \<longleftrightarrow> (\<exists>k. dict_get d k = Some e)" if "distinct (map fst d)"
proof
  assume "e \<in> set (dict_values d)"
  then obtain k where "(k, e) \<in> set d" by (auto simp: dict_values_def)
  with that have "map_of d k = Some e" by simp
  then show "\<exists>k. dict_get d k = Some e" by (auto simp: dict_get_def)
next
  assume "\<exists>k. dict_get d k = Some e"
  then obtain k where "map_of d k = Some e" by (auto simp: dict_get_def)
  then have "(k, e) \<in> set d" by (rule map_of_SomeD)
  then show "e \<in> set (dict_values d)" by (force simp: dict_values_def)
qed

lemma scenario_distinct_ids:
  "id_field (h e1) \<noteq> id_field (h e2) \<Longrightarrow>
   create_create_delete_list h e1 e2 =
     (Inr [e2], \<lparr>heap = h, storage = [(id_field (h e2), e2)]\<rparr>)"
  by (simp add: create_create_delete_list_def service_in_memory then_call_def
      InMemoryRepository_init_def InMemoryRepository_create_def InMemoryRepository_delete_def
      InMemoryRepository_get_all_def dict_setitem_def dict_contains_def dict_delitem_def
      dict_values_def)

lemma scenario_same_id:
  "id_field (h e1) = id_field (h e2) \<Longrightarrow>
   create_create_delete_list h e1 e2 = (Inr [], \<lparr>heap = h, storage = []\<rparr>)"
  by (simp add: create_create_delete_list_def service_in_memory then_call_def
      InMemoryRepository_init_def InMemoryRepository_create_def InMemoryRepository_delete_def
      InMemoryRepository_get_all_def dict_setitem_def dict_contains_def dict_delitem_def
      dict_values_def)

lemma delete_storage:
  "storage (snd (InMemoryRepository_delete st k)) =
     filter (\<lambda>(k', v'). k' \<noteq> k) (storage st)"
proof (cases "dict_contains (storage st) k")
  case True
  then show ?thesis by (simp add: delete_present)
next
  case False
  then have "\<forall>p \<in> set (storage st). fst p \<noteq> k"
    by (auto simp: dict_contains_def)
  then have "filter (\<lambda>(k', v'). k' \<noteq> k) (storage st) = storage st"
    by (induction "storage st") (auto simp: filter_id_conv)
  with False show ?thesis by (simp add: delete_absent)
qed

lemma delete_heap: "heap (snd (InMemoryRepository_delete st k)) = heap st"
  by (cases "dict_contains (storage st) k") (simp_all add: delete_present delete_absent)

lemma delete_other_heap:
  "InMemoryRepository_delete (st\<lparr>heap := h'\<rparr>) k =
     (fst (InMemoryRepository_delete st k), (snd (InMemoryRepository_delete st k))\<lparr>heap := h'\<rparr>)"
  by (cases "dict_contains (storage st) k") (simp_all add: delete_present delete_absent)

lemma other_heap_ids: "id_field (other_heap r) = id_field (example_heap r)"
  by (simp add: other_heap_def)

lemma other_heap_fields:
  "created_at (other_heap 20) \<noteq> created_at (example_heap 20)"
  "updated_at (other_heap 20) \<noteq> updated_at (example_heap 20)"
  "is_active (other_heap 20) \<noteq> is_active (example_heap 20)"
  "deleted (other_heap 20) \<noteq> deleted (example_heap 20)"
  by (simp_all add: other_heap_def example_heap_def jane_def User_init_def)

section \<open>The claims\<close>

text \<open>
  C1 (round trip). In every state, \<open>create(e)\<close> returns an entity \<open>r\<close>, and \<open>get_by_id\<close>
  with the id of \<open>r\<close> then returns \<open>e\<close> itself: the same object, whose fields (id,
  created_at, updated_at, is_active, deleted, name, email) are those \<open>e\<close> had when it
  was passed to \<open>create\<close>.
\<close>

theorem create_get_round_trip:
  "\<exists>st' r. InMemoryRepository_create st e = (Inr r, st') \<and>
     InMemoryRepository_get_by_id st' (id_field (heap st' r)) = (Inr (Some e), st') \<and>
     heap st' e = heap st e \<and>
     id_field (heap st' e) = id_field (heap st e) \<and>
     created_at (heap st' e) = created_at (heap st e) \<and>
     updated_at (heap st' e) = updated_at (heap st e) \<and>
     is_active (heap st' e) = is_active (heap st e) \<and>
     deleted (heap st' e) = deleted (heap st e) \<and>
     name (heap st' e) = name (heap st e) \<and>
     email (heap st' e) = email (heap st e)"
  by (simp add: InMemoryRepository_create_def InMemoryRepository_get_by_id_def
      dict_get_setitem_same)

theorem create_get_round_trip_witness:
  "InMemoryRepository_create john_stored 20 = (Inr 20, both_stored) \<and>
   InMemoryRepository_get_by_id both_stored (id_field (heap both_stored 20)) =
     (Inr (Some 20), both_stored) \<and>
   heap both_stored 20 = heap john_stored 20"
proof -
  have c: "InMemoryRepository_create john_stored 20 = (Inr 20, both_stored)"
    by (simp add: InMemoryRepository_create_def john_stored_def both_stored_def example_ids
        dict_setitem_def dict_contains_def)
  from create_get_round_trip [of john_stored 20] c show ?thesis
    by (simp add: example_states)
qed

text \<open>
  C2 (update on a missing id). When \<open>get_by_id(k)\<close> finds nothing, \<open>update(k, e)\<close>
  raises \<open>ValueError("Entity not found")\<close> and leaves the state, heap and storage, as
  it was.
\<close>

theorem update_missing_id_fails:
  "InMemoryRepository_get_by_id st k = (Inr None, st) \<Longrightarrow>
   InMemoryRepository_update st k e = (Inl (ValueError ''Entity not found''), st)"
  by (simp add: InMemoryRepository_update_def InMemoryRepository_get_by_id_def
      dict_contains_iff_get)

theorem update_missing_id_fails_witness:
  "InMemoryRepository_get_by_id john_stored ''nonexistent-id'' = (Inr None, john_stored) \<and>
   InMemoryRepository_update john_stored ''nonexistent-id'' 20 =
     (Inl (ValueError ''Entity not found''), john_stored)"
proof -
  have g: "InMemoryRepository_get_by_id john_stored ''nonexistent-id'' = (Inr None, john_stored)"
    by (simp add: InMemoryRepository_get_by_id_def example_states dict_get_def)
  from g update_missing_id_fails [OF g, of 20] show ?thesis by simp
qed

text \<open>
  C3 (update replaces). When \<open>k\<close> is stored, \<open>update(k, e2)\<close> returns \<open>e2\<close>, whatever
  the id of \<open>e2\<close> is, and \<open>get_by_id(k)\<close> then returns \<open>e2\<close> itself, not the old entity
  and not a mixture. The keys of the storage are the same as before, so \<open>e2\<close> sits
  under \<open>k\<close> and not under its own id; every other key keeps its entity, and no object
  is changed.
\<close>

theorem update_replaces:
  "InMemoryRepository_get_by_id st k = (Inr (Some e1), st) \<Longrightarrow>
   \<exists>st'. InMemoryRepository_update st k e2 = (Inr e2, st') \<and>
     InMemoryRepository_get_by_id st' k = (Inr (Some e2), st') \<and>
     (\<forall>k'. k' \<noteq> k \<longrightarrow>
        InMemoryRepository_get_by_id st' k' = (Inr (dict_get (storage st) k'), st')) \<and>
     map fst (storage st') = map fst (storage st) \<and>
     heap st' = heap st"
  by (simp add: InMemoryRepository_update_def InMemoryRepository_get_by_id_def
      dict_contains_iff_get dict_get_setitem_same dict_get_setitem_other keys_setitem)

theorem update_replaces_witness:
  "InMemoryRepository_get_by_id john_stored ''u-1'' = (Inr (Some 10), john_stored) \<and>
   id_field (heap john_stored 20) \<noteq> ''u-1'' \<and>
   InMemoryRepository_update john_stored ''u-1'' 20 = (Inr 20, jane_at_john) \<and>
   InMemoryRepository_get_by_id jane_at_john ''u-1'' = (Inr (Some 20), jane_at_john) \<and>
   InMemoryRepository_get_by_id jane_at_john ''u-2'' = (Inr None, jane_at_john)"
proof -
  have g: "InMemoryRepository_get_by_id john_stored ''u-1'' = (Inr (Some 10), john_stored)"
    by (simp add: InMemoryRepository_get_by_id_def example_states dict_get_def)
  have u: "InMemoryRepository_update john_stored ''u-1'' 20 = (Inr 20, jane_at_john)"
    by (simp add: InMemoryRepository_update_def john_stored_def jane_at_john_def
        dict_setitem_def dict_contains_def)
  have i: "id_field (heap john_stored 20) \<noteq> ''u-1''"
    by (simp add: example_states example_ids)
  have n: "dict_get (storage john_stored) ''u-2'' = None"
    by (simp add: example_states dict_get_def)
  from update_replaces [OF g, of 20] g u i n show ?thesis
    by auto
qed

text \<open>
  C4 (delete). \<open>delete\<close> never raises: it returns a boolean in every state. When
  \<open>get_by_id(k)\<close> finds nothing, \<open>delete(k)\<close> returns \<open>False\<close> and the state is as it
  was. When \<open>k\<close> is stored, \<open>delete(k)\<close> returns \<open>True\<close>, \<open>get_by_id(k)\<close> then finds
  nothing, a second \<open>delete(k)\<close> returns \<open>False\<close> and changes nothing, every other key
  keeps its entity, and no object is changed.
\<close>

theorem delete_idempotent_observable:
  "(\<exists>b st'. InMemoryRepository_delete st k = (Inr b, st')) \<and>
   (InMemoryRepository_get_by_id st k = (Inr None, st) \<longrightarrow>
      InMemoryRepository_delete st k = (Inr False, st)) \<and>
   (InMemoryRepository_get_by_id st k \<noteq> (Inr None, st) \<longrightarrow>
      (\<exists>st'. InMemoryRepository_delete st k = (Inr True, st') \<and>
         InMemoryRepository_get_by_id st' k = (Inr None, st') \<and>
         InMemoryRepository_delete st' k = (Inr False, st') \<and>
         (\<forall>k'. k' \<noteq> k \<longrightarrow> dict_get (storage st') k' = dict_get (storage st) k') \<and>
         heap st' = heap st))"
proof (cases "dict_contains (storage st) k")
  case True
  have "InMemoryRepository_get_by_id st k \<noteq> (Inr None, st)"
    using True by (simp add: InMemoryRepository_get_by_id_def dict_contains_iff_get)
  moreover have "\<not> dict_contains (filter (\<lambda>(k', v'). k' \<noteq> k) (storage st)) k"
    by (simp add: dict_contains_iff_get dict_get_filter_same)
  ultimately show ?thesis
    using True
    by (auto simp: delete_present delete_absent InMemoryRepository_get_by_id_def
        dict_get_filter_same dict_get_filter_other)
next
  case False
  then show ?thesis
    by (auto simp: delete_absent InMemoryRepository_get_by_id_def dict_contains_iff_get)
qed

theorem delete_idempotent_observable_witness:
  "InMemoryRepository_get_by_id both_stored ''u-1'' \<noteq> (Inr None, both_stored) \<and>
   InMemoryRepository_get_by_id john_stored ''u-2'' = (Inr None, john_stored) \<and>
   InMemoryRepository_delete john_stored ''u-2'' = (Inr False, john_stored) \<and>
   (\<exists>st'. InMemoryRepository_delete both_stored ''u-1'' = (Inr True, st') \<and>
      InMemoryRepository_get_by_id st' ''u-1'' = (Inr None, st') \<and>
      InMemoryRepository_delete st' ''u-1'' = (Inr False, st') \<and>
      dict_get (storage st') ''u-2'' = Some 20)"
proof -
  have p: "InMemoryRepository_get_by_id both_stored ''u-1'' \<noteq> (Inr None, both_stored)"
    by (simp add: InMemoryRepository_get_by_id_def example_states dict_get_def)
  have a: "InMemoryRepository_get_by_id john_stored ''u-2'' = (Inr None, john_stored)"
    by (simp add: InMemoryRepository_get_by_id_def example_states dict_get_def)
  have o: "dict_get (storage both_stored) ''u-2'' = Some 20"
    by (simp add: example_states dict_get_def)
  from delete_idempotent_observable [of john_stored "''u-2''"] a
  have d: "InMemoryRepository_delete john_stored ''u-2'' = (Inr False, john_stored)"
    by blast
  from delete_idempotent_observable [of both_stored "''u-1''"] p
  obtain st' where "InMemoryRepository_delete both_stored ''u-1'' = (Inr True, st')"
    "InMemoryRepository_get_by_id st' ''u-1'' = (Inr None, st')"
    "InMemoryRepository_delete st' ''u-1'' = (Inr False, st')"
    "\<forall>k'. k' \<noteq> ''u-1'' \<longrightarrow> dict_get (storage st') k' = dict_get (storage both_stored) k'"
    by blast
  with o have "InMemoryRepository_delete both_stored ''u-1'' = (Inr True, st') \<and>
      InMemoryRepository_get_by_id st' ''u-1'' = (Inr None, st') \<and>
      InMemoryRepository_delete st' ''u-1'' = (Inr False, st') \<and>
      dict_get (storage st') ''u-2'' = Some 20"
    by simp
  with p a d show ?thesis by blast
qed

text \<open>
  C5 (create). In every state \<open>create(e)\<close> returns \<open>e\<close> and never raises. Afterwards
  \<open>get_by_id\<close> with the id of \<open>e\<close> returns \<open>e\<close>, whatever was stored under that id
  before; every other key keeps its entity; an id already stored keeps its place among
  the keys and a new id is added at the end; no object is changed.
\<close>

theorem create_overwrites:
  "\<exists>st'. InMemoryRepository_create st e = (Inr e, st') \<and>
     InMemoryRepository_get_by_id st' (id_field (heap st e)) = (Inr (Some e), st') \<and>
     (\<forall>k. k \<noteq> id_field (heap st e) \<longrightarrow>
        dict_get (storage st') k = dict_get (storage st) k) \<and>
     map fst (storage st') =
       (if dict_contains (storage st) (id_field (heap st e)) then map fst (storage st)
        else map fst (storage st) @ [id_field (heap st e)]) \<and>
     heap st' = heap st"
  by (simp add: InMemoryRepository_create_def InMemoryRepository_get_by_id_def
      dict_get_setitem_same dict_get_setitem_other keys_setitem)

theorem create_overwrites_witness:
  "InMemoryRepository_get_by_id both_stored ''u-1'' = (Inr (Some 10), both_stored) \<and>
   id_field (heap both_stored 30) = ''u-1'' \<and>
   (\<exists>st'. InMemoryRepository_create both_stored 30 = (Inr 30, st') \<and>
      InMemoryRepository_get_by_id st' ''u-1'' = (Inr (Some 30), st') \<and>
      dict_get (storage st') ''u-2'' = Some 20 \<and>
      map fst (storage st') = [''u-1'', ''u-2''])"
proof -
  have g: "InMemoryRepository_get_by_id both_stored ''u-1'' = (Inr (Some 10), both_stored)"
    by (simp add: InMemoryRepository_get_by_id_def example_states dict_get_def)
  have i: "id_field (heap both_stored 30) = ''u-1''"
    by (simp add: example_states example_ids)
  have c: "dict_contains (storage both_stored) ''u-1''"
    by (simp add: example_states dict_contains_def)
  have o: "dict_get (storage both_stored) ''u-2'' = Some 20"
    by (simp add: example_states dict_get_def)
  have k: "map fst (storage both_stored) = [''u-1'', ''u-2'']"
    by (simp add: example_states)
  from create_overwrites [of both_stored 30] i c o k
  have "\<exists>st'. InMemoryRepository_create both_stored 30 = (Inr 30, st') \<and>
      InMemoryRepository_get_by_id st' ''u-1'' = (Inr (Some 30), st') \<and>
      dict_get (storage st') ''u-2'' = Some 20 \<and>
      map fst (storage st') = [''u-1'', ''u-2'']"
    by auto
  with g i show ?thesis by blast
qed

text \<open>
  C6, as stated, fails when the two entities carry the same id: the second \<open>create\<close>
  replaces the first entity, \<open>delete(e1.id)\<close> removes the second, and \<open>list_all()\<close>
  returns the empty list, not \<open>[e2]\<close>. The objects at 10 and 30 both have the id
  \<open>u-1\<close>.
\<close>

theorem list_after_colliding_ids_counterexample:
  "create_create_delete_list example_heap 10 30 = (Inr [], fresh_state) \<and>
   fst (create_create_delete_list example_heap 10 30) \<noteq> Inr [30]"
proof -
  have "id_field (example_heap 10) = id_field (example_heap 30)"
    by (simp add: example_ids)
  from scenario_same_id [OF this] show ?thesis
    by (simp add: fresh_state_def InMemoryRepository_init_def)
qed

text \<open>
  C6 (list reflects the store), amended. In a state whose keys are distinct, \<open>get_all\<close>
  (and \<open>list_all\<close> of the service) returns one entity for each key, in the order of the
  keys: the entity \<open>get_by_id\<close> returns for that key; an entity is listed exactly when
  some key leads to it. The keys are in insertion order: a fresh repository has none,
  \<open>create\<close> puts a new id at the end and leaves a stored id where it is, \<open>update\<close>
  leaves the keys as they are, \<open>delete\<close> takes the key out and keeps the order of the
  others; all three keep the keys distinct. After \<open>create(e1)\<close>, \<open>create(e2)\<close>,
  \<open>delete(e1.id)\<close> on a fresh repository, \<open>list_all()\<close> returns \<open>[e2]\<close> when the two
  ids differ, and the empty list when they are equal.
\<close>

theorem list_reflects_store:
  "(distinct (map fst (storage st)) \<longrightarrow>
      (\<exists>es. InMemoryRepository_get_all st = (Inr es, st) \<and>
         CRUDService_list_all (CRUDService_init InMemoryRepository) st = (Inr es, st) \<and>
         map Some es = map (dict_get (storage st)) (map fst (storage st)) \<and>
         (\<forall>e. e \<in> set es \<longleftrightarrow>
            (\<exists>k. InMemoryRepository_get_by_id st k = (Inr (Some e), st))))) \<and>
   storage (InMemoryRepository_init h) = [] \<and>
   map fst (storage (snd (InMemoryRepository_create st e))) =
     (if dict_contains (storage st) (id_field (heap st e)) then map fst (storage st)
      else map fst (storage st) @ [id_field (heap st e)]) \<and>
   map fst (storage (snd (InMemoryRepository_update st k e))) = map fst (storage st) \<and>
   map fst (storage (snd (InMemoryRepository_delete st k))) =
     filter (\<lambda>k'. k' \<noteq> k) (map fst (storage st)) \<and>
   (distinct (map fst (storage st)) \<longrightarrow>
      distinct (map fst (storage (snd (InMemoryRepository_create st e)))) \<and>
      distinct (map fst (storage (snd (InMemoryRepository_update st k e)))) \<and>
      distinct (map fst (storage (snd (InMemoryRepository_delete st k))))) \<and>
   (id_field (h e1) \<noteq> id_field (h e2) \<longrightarrow>
      create_create_delete_list h e1 e2 =
        (Inr [e2], \<lparr>heap = h, storage = [(id_field (h e2), e2)]\<rparr>)) \<and>
   (id_field (h e1) = id_field (h e2) \<longrightarrow>
      create_create_delete_list h e1 e2 = (Inr [], \<lparr>heap = h, storage = []\<rparr>))"
proof -
  have listing: "\<exists>es. InMemoryRepository_get_all st = (Inr es, st) \<and>
         CRUDService_list_all (CRUDService_init InMemoryRepository) st = (Inr es, st) \<and>
         map Some es = map (dict_get (storage st)) (map fst (storage st)) \<and>
         (\<forall>e. e \<in> set es \<longleftrightarrow>
            (\<exists>k. InMemoryRepository_get_by_id st k = (Inr (Some e), st)))"
    if d: "distinct (map fst (storage st))"
    using values_by_key [OF d] listed_iff_stored [OF d]
    by (simp add: service_in_memory InMemoryRepository_get_all_def
        InMemoryRepository_get_by_id_def)
  have kept: "distinct (map fst (storage (snd (InMemoryRepository_create st e)))) \<and>
      distinct (map fst (storage (snd (InMemoryRepository_update st k e)))) \<and>
      distinct (map fst (storage (snd (InMemoryRepository_delete st k))))"
    if d: "distinct (map fst (storage st))"
    using d by (simp add: keys_after_create keys_after_update keys_after_delete
        dict_contains_def)
  have init: "storage (InMemoryRepository_init h) = []"
    by (simp add: InMemoryRepository_init_def)
  from listing kept init keys_after_create [of st e] keys_after_update [of st k e]
    keys_after_delete [of st k] scenario_distinct_ids [of h e1 e2]
    scenario_same_id [of h e1 e2]
  show ?thesis by blast
qed

theorem list_reflects_store_witness:
  "distinct (map fst (storage both_stored)) \<and>
   InMemoryRepository_get_all both_stored = (Inr [10, 20], both_stored) \<and>
   map Some [10, 20] = map (dict_get (storage both_stored)) (map fst (storage both_stored)) \<and>
   distinct (map fst (storage (snd (InMemoryRepository_delete both_stored ''u-1'')))) \<and>
   id_field (example_heap 10) \<noteq> id_field (example_heap 20) \<and>
   create_create_delete_list example_heap 10 20 =
     (Inr [20], \<lparr>heap = example_heap, storage = [(''u-2'', 20)]\<rparr>) \<and>
   id_field (example_heap 10) = id_field (example_heap 30) \<and>
   create_create_delete_list example_heap 10 30 =
     (Inr [], \<lparr>heap = example_heap, storage = []\<rparr>)"
proof -
  have d: "distinct (map fst (storage both_stored))"
    by (simp add: example_states)
  have i: "id_field (example_heap 10) \<noteq> id_field (example_heap 20)"
    by (simp add: example_ids)
  have j: "id_field (example_heap 10) = id_field (example_heap 30)"
    by (simp add: example_ids)
  have g: "InMemoryRepository_get_all both_stored = (Inr [10, 20], both_stored)"
    by (simp add: InMemoryRepository_get_all_def example_states dict_values_def)
  from list_reflects_store [of both_stored example_heap 20 "''u-1''" 10 20] i
  have s: "create_create_delete_list example_heap 10 20 =
     (Inr [20], \<lparr>heap = example_heap, storage = [(''u-2'', 20)]\<rparr>)"
    by (simp add: example_ids)
  from list_reflects_store [of both_stored example_heap 20 "''u-1''" 10 30] j
  have t: "create_create_delete_list example_heap 10 30 =
     (Inr [], \<lparr>heap = example_heap, storage = []\<rparr>)"
    by simp
  from list_reflects_store [of both_stored example_heap 20 "''u-1''" 10 20] d
  obtain es where es: "InMemoryRepository_get_all both_stored = (Inr es, both_stored)"
    "map Some es = map (dict_get (storage both_stored)) (map fst (storage both_stored))"
    by blast
  from es(1) g have "es = [10, 20]" by simp
  with es(2)
  have m: "map Some [10, 20] =
      map (dict_get (storage both_stored)) (map fst (storage both_stored))"
    by simp
  from list_reflects_store [of both_stored example_heap 20 "''u-1''" 10 20] d
  have k: "distinct (map fst (storage (snd (InMemoryRepository_delete both_stored ''u-1''))))"
    by blast
  from d g m k i s j t show ?thesis by blast
qed

text \<open>
  C7 (the service passes through). For every repository, every state and every argument,
  each of \<open>get\<close>, \<open>list_all\<close>, \<open>create\<close>, \<open>update\<close>, \<open>delete\<close> of the service gives
  the outcome of \<open>get_by_id\<close>, \<open>get_all\<close>, \<open>create\<close>, \<open>update\<close>, \<open>delete\<close> of its
  repository: the same value or exception and the same state. Over the in-memory
  repository these are its five methods, and \<open>update\<close> of a missing id raises the
  \<open>ValueError\<close> of the repository through the service, unchanged.
\<close>

theorem service_pass_through:
  "CRUDService_get self s k = get_by_id (repository self) s k \<and>
   CRUDService_list_all self s = get_all (repository self) s \<and>
   CRUDService_create self s e = create (repository self) s e \<and>
   CRUDService_update self s k e = update (repository self) s k e \<and>
   CRUDService_delete self s k = delete (repository self) s k \<and>
   repository (CRUDService_init repo) = repo \<and>
   CRUDService_get (CRUDService_init InMemoryRepository) st k =
     InMemoryRepository_get_by_id st k \<and>
   CRUDService_list_all (CRUDService_init InMemoryRepository) st =
     InMemoryRepository_get_all st \<and>
   CRUDService_create (CRUDService_init InMemoryRepository) st e =
     InMemoryRepository_create st e \<and>
   CRUDService_update (CRUDService_init InMemoryRepository) st k e =
     InMemoryRepository_update st k e \<and>
   CRUDService_delete (CRUDService_init InMemoryRepository) st k =
     InMemoryRepository_delete st k \<and>
   (InMemoryRepository_get_by_id st k = (Inr None, st) \<longrightarrow>
      CRUDService_update (CRUDService_init InMemoryRepository) st k e =
        (Inl (ValueError ''Entity not found''), st))"
  by (simp add: CRUDService_get_def CRUDService_list_all_def CRUDService_create_def
      CRUDService_update_def CRUDService_delete_def CRUDService_init_def
      InMemoryRepository_def InMemoryRepository_update_def InMemoryRepository_get_by_id_def
      dict_contains_iff_get)

theorem service_pass_through_witness:
  "InMemoryRepository_get_by_id john_stored ''nonexistent-id'' = (Inr None, john_stored) \<and>
   CRUDService_update (CRUDService_init InMemoryRepository) john_stored ''nonexistent-id'' 20 =
     (Inl (ValueError ''Entity not found''), john_stored) \<and>
   CRUDService_create (CRUDService_init InMemoryRepository) john_stored 20 =
     (Inr 20, both_stored)"
proof -
  have g: "InMemoryRepository_get_by_id john_stored ''nonexistent-id'' = (Inr None, john_stored)"
    by (simp add: InMemoryRepository_get_by_id_def example_states dict_get_def)
  have c: "InMemoryRepository_create john_stored 20 = (Inr 20, both_stored)"
    by (simp add: InMemoryRepository_create_def john_stored_def both_stored_def example_ids
        dict_setitem_def dict_contains_def)
  from service_pass_through [of "CRUDService_init InMemoryRepository" john_stored
      "''nonexistent-id''" 20 InMemoryRepository john_stored] g
  have "CRUDService_update (CRUDService_init InMemoryRepository) john_stored
      ''nonexistent-id'' 20 = (Inl (ValueError ''Entity not found''), john_stored)"
    by blast
  moreover from service_pass_through [of "CRUDService_init InMemoryRepository" john_stored
      "''u-1''" 20 InMemoryRepository john_stored] c
  have "CRUDService_create (CRUDService_init InMemoryRepository) john_stored 20 =
     (Inr 20, both_stored)"
    by metis
  ultimately show ?thesis using g by blast
qed

text \<open>
  C8 (dead fields and ids). No method writes an object: the heap after each of the five
  calls is the heap before, so no field of any entity, its id included, changes. The
  entities stored after a call are entities stored before it or the argument of
  \<open>create\<close> or \<open>update\<close>. No method reads created_at, updated_at, is_active or deleted:
  run on any other heap, \<open>get_by_id\<close>, \<open>get_all\<close>, \<open>update\<close> and \<open>delete\<close> return the
  same and leave the same storage, and so does \<open>create\<close> as long as the argument has
  the same id there. The five methods of the service over the in-memory repository are
  these five.
\<close>

theorem dead_fields_frame:
  "heap (snd (InMemoryRepository_get_by_id st k)) = heap st \<and>
   heap (snd (InMemoryRepository_get_all st)) = heap st \<and>
   heap (snd (InMemoryRepository_create st e)) = heap st \<and>
   heap (snd (InMemoryRepository_update st k e)) = heap st \<and>
   heap (snd (InMemoryRepository_delete st k)) = heap st \<and>
   storage (snd (InMemoryRepository_get_by_id st k)) = storage st \<and>
   storage (snd (InMemoryRepository_get_all st)) = storage st \<and>
   set (dict_values (storage (snd (InMemoryRepository_create st e))))
     \<subseteq> insert e (set (dict_values (storage st))) \<and>
   set (dict_values (storage (snd (InMemoryRepository_update st k e))))
     \<subseteq> insert e (set (dict_values (storage st))) \<and>
   set (dict_values (storage (snd (InMemoryRepository_delete st k))))
     \<subseteq> set (dict_values (storage st)) \<and>
   InMemoryRepository_get_by_id (st\<lparr>heap := h'\<rparr>) k =
     (fst (InMemoryRepository_get_by_id st k),
      (snd (InMemoryRepository_get_by_id st k))\<lparr>heap := h'\<rparr>) \<and>
   InMemoryRepository_get_all (st\<lparr>heap := h'\<rparr>) =
     (fst (InMemoryRepository_get_all st), (snd (InMemoryRepository_get_all st))\<lparr>heap := h'\<rparr>) \<and>
   (id_field (h' e) = id_field (heap st e) \<longrightarrow>
      InMemoryRepository_create (st\<lparr>heap := h'\<rparr>) e =
        (fst (InMemoryRepository_create st e),
         (snd (InMemoryRepository_create st e))\<lparr>heap := h'\<rparr>)) \<and>
   InMemoryRepository_update (st\<lparr>heap := h'\<rparr>) k e =
     (fst (InMemoryRepository_update st k e),
      (snd (InMemoryRepository_update st k e))\<lparr>heap := h'\<rparr>) \<and>
   InMemoryRepository_delete (st\<lparr>heap := h'\<rparr>) k =
     (fst (InMemoryRepository_delete st k),
      (snd (InMemoryRepository_delete st k))\<lparr>heap := h'\<rparr>) \<and>
   CRUDService_get (CRUDService_init InMemoryRepository) st k =
     InMemoryRepository_get_by_id st k \<and>
   CRUDService_list_all (CRUDService_init InMemoryRepository) st =
     InMemoryRepository_get_all st \<and>
   CRUDService_create (CRUDService_init InMemoryRepository) st e =
     InMemoryRepository_create st e \<and>
   CRUDService_update (CRUDService_init InMemoryRepository) st k e =
     InMemoryRepository_update st k e \<and>
   CRUDService_delete (CRUDService_init InMemoryRepository) st k =
     InMemoryRepository_delete st k"
proof -
  have heaps: "heap (snd (InMemoryRepository_get_by_id st k)) = heap st"
    "heap (snd (InMemoryRepository_get_all st)) = heap st"
    "heap (snd (InMemoryRepository_create st e)) = heap st"
    "heap (snd (InMemoryRepository_update st k e)) = heap st"
    by (simp_all add: InMemoryRepository_get_by_id_def InMemoryRepository_get_all_def
        InMemoryRepository_create_def InMemoryRepository_update_def)
  have reads: "storage (snd (InMemoryRepository_get_by_id st k)) = storage st"
    "storage (snd (InMemoryRepository_get_all st)) = storage st"
    by (simp_all add: InMemoryRepository_get_by_id_def InMemoryRepository_get_all_def)
  have stored_create: "set (dict_values (storage (snd (InMemoryRepository_create st e))))
     \<subseteq> insert e (set (dict_values (storage st)))"
    by (simp add: InMemoryRepository_create_def values_setitem_subset)
  have stored_update: "set (dict_values (storage (snd (InMemoryRepository_update st k e))))
     \<subseteq> insert e (set (dict_values (storage st)))"
    using values_setitem_subset [of "storage st" k e]
    by (auto simp: InMemoryRepository_update_def)
  have stored_delete: "set (dict_values (storage (snd (InMemoryRepository_delete st k))))
     \<subseteq> set (dict_values (storage st))"
    by (auto simp: delete_storage dict_values_def)
  have blind: "InMemoryRepository_get_by_id (st\<lparr>heap := h'\<rparr>) k =
     (fst (InMemoryRepository_get_by_id st k),
      (snd (InMemoryRepository_get_by_id st k))\<lparr>heap := h'\<rparr>)"
    "InMemoryRepository_get_all (st\<lparr>heap := h'\<rparr>) =
     (fst (InMemoryRepository_get_all st), (snd (InMemoryRepository_get_all st))\<lparr>heap := h'\<rparr>)"
    "InMemoryRepository_update (st\<lparr>heap := h'\<rparr>) k e =
     (fst (InMemoryRepository_update st k e),
      (snd (InMemoryRepository_update st k e))\<lparr>heap := h'\<rparr>)"
    by (simp_all add: InMemoryRepository_get_by_id_def InMemoryRepository_get_all_def
        InMemoryRepository_update_def)
  have blind_create: "InMemoryRepository_create (st\<lparr>heap := h'\<rparr>) e =
        (fst (InMemoryRepository_create st e),
         (snd (InMemoryRepository_create st e))\<lparr>heap := h'\<rparr>)"
    if "id_field (h' e) = id_field (heap st e)"
    using that by (simp add: InMemoryRepository_create_def)
  from heaps delete_heap [of st k] reads stored_create stored_update stored_delete blind
    blind_create delete_other_heap [of h' st k]
  show ?thesis by (simp add: service_in_memory)
qed

theorem dead_fields_frame_witness:
  "id_field (other_heap 20) = id_field (heap john_stored 20) \<and>
   created_at (other_heap 20) \<noteq> created_at (heap john_stored 20) \<and>
   updated_at (other_heap 20) \<noteq> updated_at (heap john_stored 20) \<and>
   is_active (other_heap 20) \<noteq> is_active (heap john_stored 20) \<and>
   deleted (other_heap 20) \<noteq> deleted (heap john_stored 20) \<and>
   InMemoryRepository_create john_stored 20 = (Inr 20, both_stored) \<and>
   InMemoryRepository_create (john_stored\<lparr>heap := other_heap\<rparr>) 20 =
     (Inr 20, both_stored\<lparr>heap := other_heap\<rparr>)"
proof -
  have i: "id_field (other_heap 20) = id_field (heap john_stored 20)"
    by (simp add: other_heap_ids example_states)
  have c: "InMemoryRepository_create john_stored 20 = (Inr 20, both_stored)"
    by (simp add: InMemoryRepository_create_def john_stored_def both_stored_def example_ids
        dict_setitem_def dict_contains_def)
  from dead_fields_frame [of john_stored "''u-1''" 20 other_heap] i
  have "InMemoryRepository_create (john_stored\<lparr>heap := other_heap\<rparr>) 20 =
        (fst (InMemoryRepository_create john_stored 20),
         (snd (InMemoryRepository_create john_stored 20))\<lparr>heap := other_heap\<rparr>)"
    by blast
  with c have "InMemoryRepository_create (john_stored\<lparr>heap := other_heap\<rparr>) 20 =
     (Inr 20, both_stored\<lparr>heap := other_heap\<rparr>)"
    by simp
  with i c other_heap_fields show ?thesis by (simp add: example_states)
qed

text \<open>
  C10 (reads are pure). \<open>get_by_id\<close> and \<open>get_all\<close>, and \<open>get\<close> and \<open>list_all\<close> of the
  service over the in-memory repository, leave the state, and so the storage, exactly
  as it was. The other three can change the storage: \<open>create\<close> on a fresh repository,
  \<open>update\<close> and \<open>delete\<close> of a stored key do.
\<close>

theorem reads_leave_state:
  "snd (InMemoryRepository_get_by_id st k) = st \<and>
   snd (InMemoryRepository_get_all st) = st \<and>
   snd (CRUDService_get (CRUDService_init InMemoryRepository) st k) = st \<and>
   snd (CRUDService_list_all (CRUDService_init InMemoryRepository) st) = st \<and>
   storage (snd (InMemoryRepository_get_by_id st k)) = storage st \<and>
   storage (snd (InMemoryRepository_get_all st)) = storage st \<and>
   storage (snd (CRUDService_get (CRUDService_init InMemoryRepository) st k)) = storage st \<and>
   storage (snd (CRUDService_list_all (CRUDService_init InMemoryRepository) st)) = storage st \<and>
   storage (snd (InMemoryRepository_create fresh_state 10)) \<noteq> storage fresh_state \<and>
   storage (snd (InMemoryRepository_update john_stored ''u-1'' 20)) \<noteq> storage john_stored \<and>
   storage (snd (InMemoryRepository_delete john_stored ''u-1'')) \<noteq> storage john_stored"
  by (simp add: service_in_memory InMemoryRepository_get_by_id_def
      InMemoryRepository_get_all_def InMemoryRepository_create_def
      InMemoryRepository_update_def delete_storage example_states
      dict_setitem_def dict_contains_def)

theorem reads_leave_state_witness:
  "snd (CRUDService_get (CRUDService_init InMemoryRepository) both_stored ''u-2'') = both_stored \<and>
   snd (CRUDService_list_all (CRUDService_init InMemoryRepository) both_stored) = both_stored \<and>
   storage (snd (InMemoryRepository_get_by_id both_stored ''u-2'')) =
     [(''u-1'', 10), (''u-2'', 20)]"
  using reads_leave_state [of both_stored "''u-2''"]
  by (simp add: example_states)

end
